theory Spec2Isabelle
  imports Main "HOL-Library.Word"
begin

unbundle bit_operations_syntax

section \<open>Bytes, strings and big-endian integers\<close>

text \<open>
  A Go \<^verbatim>\<open>byte\<close> is an 8-bit word and a Go \<^verbatim>\<open>string\<close> is a sequence of bytes:
  the HOL type \<open>string\<close> (a list of 8-bit characters) holds exactly the same values.
  \<open>bytes_of\<close> is the conversion \<^verbatim>\<open>[]byte(s)\<close> and \<open>string_of\<close> is \<^verbatim>\<open>string(b)\<close>.
\<close>

type_synonym byte = "8 word"

definition byte_of_char :: "char \<Rightarrow> byte" where
  "byte_of_char c = of_nat (of_char c)"

definition char_of_byte :: "byte \<Rightarrow> char" where
  "char_of_byte b = char_of (unat b)"

definition bytes_of :: "string \<Rightarrow> byte list" where
  "bytes_of s = map byte_of_char s"

definition string_of :: "byte list \<Rightarrow> string" where
  "string_of bs = map char_of_byte bs"

text \<open>
  \<open>be_bytes n w\<close> are the \<open>n\<close> low-order bytes of \<open>w\<close>, most significant first;
  \<open>from_be\<close> reads such a sequence back.
\<close>

definition be_bytes :: "nat \<Rightarrow> 'a::len word \<Rightarrow> byte list" where
  "be_bytes n w = map (\<lambda>i. ucast (drop_bit (8 * i) w)) (rev [0..<n])"

definition from_be :: "byte list \<Rightarrow> 'a::len word" where
  "from_be bs = foldl (\<lambda>acc b. push_bit 8 acc OR ucast b) 0 bs"

text \<open>\<^verbatim>\<open>binary.BigEndian.AppendUint16\<close> and \<^verbatim>\<open>binary.BigEndian.Uint16\<close>.\<close>

definition AppendUint16 :: "byte list \<Rightarrow> 16 word \<Rightarrow> byte list" where
  "AppendUint16 b v = b @ [ucast (drop_bit 8 v), ucast v]"

definition Uint16 :: "byte list \<Rightarrow> 16 word" where
  "Uint16 b = (ucast (b ! 1) :: 16 word) OR push_bit 8 (ucast (b ! 0) :: 16 word)"

section \<open>The platform's address type (\<^verbatim>\<open>net/netip\<close>)\<close>

text \<open>
  \<^verbatim>\<open>netip.Addr\<close> is a value type of the Go standard library, not of this repository.
  It is modelled after its documentation: the zero value (no address), a 32-bit IPv4
  address, or a 128-bit IPv6 address with a zone name (empty when there is none).
\<close>

datatype Addr = AddrZero | Addr4 "32 word" | Addr6 "128 word" string

fun Is4 :: "Addr \<Rightarrow> bool" where
  "Is4 (Addr4 w) = True"
| "Is4 _ = False"

fun Is6 :: "Addr \<Rightarrow> bool" where
  "Is6 (Addr6 w z) = True"
| "Is6 _ = False"

text \<open>An IPv4-mapped IPv6 address is \<^verbatim>\<open>::ffff:a.b.c.d\<close>: the upper 96 bits are \<^verbatim>\<open>0xffff\<close>.\<close>

fun Is4In6 :: "Addr \<Rightarrow> bool" where
  "Is4In6 (Addr6 w z) = (drop_bit 32 w = 0xffff)"
| "Is4In6 _ = False"

fun Unmap :: "Addr \<Rightarrow> Addr" where
  "Unmap (Addr6 w z) = (if drop_bit 32 w = 0xffff then Addr4 (ucast w) else Addr6 w z)"
| "Unmap a = a"

fun AsSlice :: "Addr \<Rightarrow> byte list" where
  "AsSlice AddrZero = []"
| "AsSlice (Addr4 w) = be_bytes 4 w"
| "AsSlice (Addr6 w z) = be_bytes 16 w"

definition AddrFromSlice :: "byte list \<Rightarrow> Addr option" where
  "AddrFromSlice b =
     (if length b = 4 then Some (Addr4 (from_be b))
      else if length b = 16 then Some (Addr6 (from_be b) [])
      else None)"

fun IsUnspecified :: "Addr \<Rightarrow> bool" where
  "IsUnspecified (Addr4 w) = (w = 0)"
| "IsUnspecified (Addr6 w z) = (w = 0 \<and> z = [])"
| "IsUnspecified AddrZero = False"

fun WithZone :: "Addr \<Rightarrow> string \<Rightarrow> Addr" where
  "WithZone (Addr6 w z) zone = Addr6 w zone"
| "WithZone a zone = a"

section \<open>The address codec: \<^verbatim>\<open>SocksAddr\<close>\<close>

definition TypeIPv4 :: byte where "TypeIPv4 = 1"
definition TypeFqdn :: byte where "TypeFqdn = 3"
definition TypeIPv6 :: byte where "TypeIPv6 = 4"

record SocksAddr =
  addr :: Addr
  fqdn :: string
  port :: "16 word"

text \<open>The zero value of the struct, as \<^verbatim>\<open>var bindAddr SocksAddr\<close> and \<^verbatim>\<open>&SocksAddr{...}\<close> start from.\<close>

definition zeroSocksAddr :: SocksAddr where
  "zeroSocksAddr = \<lparr>addr = AddrZero, fqdn = [], port = 0\<rparr>"

definition SocksAddrFromFqdnPort :: "string \<Rightarrow> 16 word \<Rightarrow> SocksAddr" where
  "SocksAddrFromFqdnPort f p = \<lparr>addr = AddrZero, fqdn = f, port = p\<rparr>"

text \<open>A \<^verbatim>\<open>netip.AddrPort\<close> is a pair of an address and a port.\<close>

definition SocksAddrFromAddrPort :: "Addr \<times> 16 word \<Rightarrow> SocksAddr" where
  "SocksAddrFromAddrPort addrPort = \<lparr>addr = fst addrPort, fqdn = [], port = snd addrPort\<rparr>"

definition SetAddr :: "Addr \<Rightarrow> SocksAddr \<Rightarrow> SocksAddr" where
  "SetAddr a s = (if Is4In6 a then s\<lparr>addr := Unmap a\<rparr> else s\<lparr>addr := a\<rparr>)"

definition SetFqdn :: "string \<Rightarrow> SocksAddr \<Rightarrow> SocksAddr" where
  "SetFqdn f s = s\<lparr>fqdn := f\<rparr>"

definition SetPort :: "16 word \<Rightarrow> SocksAddr \<Rightarrow> SocksAddr" where
  "SetPort p s = s\<lparr>port := p\<rparr>"

text \<open>\<^verbatim>\<open>byte(len(fqdn))\<close> keeps the low 8 bits of the length, which is what \<open>of_nat\<close> into \<open>8 word\<close> does.\<close>

definition Slice :: "SocksAddr \<Rightarrow> byte list" where
  "Slice s =
     AppendUint16
       (if length (fqdn s) > 0 then
          [TypeFqdn, of_nat (length (bytes_of (fqdn s)))] @ bytes_of (fqdn s)
        else if Is4 (addr s) then [TypeIPv4] @ AsSlice (addr s)
        else [TypeIPv6] @ AsSlice (addr s))
       (port s)"

section \<open>The platform's text functions (\<^verbatim>\<open>strings\<close>, \<^verbatim>\<open>strconv\<close>, \<^verbatim>\<open>fmt\<close>)\<close>

text \<open>
  These functions belong to the Go standard library. They are modelled after their
  documented behaviour, on byte strings.
\<close>

definition is_digit :: "char \<Rightarrow> bool" where
  "is_digit c = (48 \<le> (of_char c :: nat) \<and> (of_char c :: nat) \<le> 57)"

definition digit_val :: "char \<Rightarrow> nat" where
  "digit_val c = of_char c - 48"

definition dec_val :: "string \<Rightarrow> nat" where
  "dec_val s = foldl (\<lambda>acc c. acc * 10 + digit_val c) 0 s"

text \<open>\<^verbatim>\<open>strings.Contains(s, ":")\<close>.\<close>

definition ContainsColon :: "string \<Rightarrow> bool" where
  "ContainsColon s = (CHR '':'' \<in> set s)"

text \<open>\<^verbatim>\<open>strings.SplitN(s, ":", 2)\<close> on a string that contains a colon: the text before the
  first colon and the text after it.\<close>

definition SplitN2 :: "string \<Rightarrow> string \<times> string" where
  "SplitN2 s = (takeWhile (\<lambda>c. c \<noteq> CHR '':'') s, tl (dropWhile (\<lambda>c. c \<noteq> CHR '':'') s))"

text \<open>
  \<^verbatim>\<open>strconv.Atoi\<close>: an optional sign, then one or more decimal digits; a value outside
  the range of \<^verbatim>\<open>int\<close> (64 bits) is an error.
\<close>

definition Atoi :: "string \<Rightarrow> int option" where
  "Atoi s =
     (let neg = (s \<noteq> [] \<and> hd s = CHR ''-'');
          body = (if s \<noteq> [] \<and> (hd s = CHR ''+'' \<or> hd s = CHR ''-'') then tl s else s)
      in if body = [] \<or> \<not> list_all is_digit body then None
         else let v = (if neg then - int (dec_val body) else int (dec_val body))
              in if v < - (2 ^ 63) \<or> v > 2 ^ 63 - 1 then None else Some v)"

text \<open>\<^verbatim>\<open>strconv.ParseUint(s, 10, 16)\<close>: one or more decimal digits, no sign, at most 65535.\<close>

definition ParseUint16 :: "string \<Rightarrow> 16 word option" where
  "ParseUint16 s =
     (if s = [] \<or> \<not> list_all is_digit s then None
      else if dec_val s > 65535 then None
      else Some (of_nat (dec_val s)))"

text \<open>The decimal rendering of a number, as \<^verbatim>\<open>%v\<close> and \<^verbatim>\<open>%d\<close> print an unsigned integer.\<close>

function show_nat :: "nat \<Rightarrow> string" where
  "show_nat n =
     (if n < 10 then [''0123456789'' ! n]
      else show_nat (n div 10) @ [''0123456789'' ! (n mod 10)])"
  by pat_completeness auto
termination
  by (relation "measure id") auto

declare show_nat.simps [simp del]

section \<open>The platform's address parser (\<^verbatim>\<open>netip.ParseAddrPort\<close>)\<close>

text \<open>
  \<^verbatim>\<open>netip.ParseAddrPort\<close> and the parsers under it belong to the Go standard library.
  The model follows the library: dotted-decimal IPv4 with four octets of at most 255 and
  no leading zero; IPv6 as groups of up to four hexadecimal digits, at most one \<^verbatim>\<open>::\<close>, an
  optional dotted IPv4 tail and an optional \<^verbatim>\<open>%zone\<close>; in \<^verbatim>\<open>ip:port\<close> the port follows the
  last colon, and an IPv6 address stands in square brackets.
\<close>

fun parseIPv4Fields :: "string \<Rightarrow> nat \<Rightarrow> nat \<Rightarrow> byte list \<Rightarrow> byte list option" where
  "parseIPv4Fields [] val digLen fs =
     (if length fs < 3 then None else Some (fs @ [of_nat val]))"
| "parseIPv4Fields (c # cs) val digLen fs =
     (if is_digit c then
        (if digLen = 1 \<and> val = 0 then None
         else if val * 10 + digit_val c > 255 then None
         else parseIPv4Fields cs (val * 10 + digit_val c) (digLen + 1) fs)
      else if c = CHR ''.'' then
        (if digLen = 0 \<or> cs = [] then None
         else if length fs = 3 then None
         else parseIPv4Fields cs 0 0 (fs @ [of_nat val]))
      else None)"

definition parseIPv4 :: "string \<Rightarrow> Addr option" where
  "parseIPv4 s = map_option (\<lambda>f. Addr4 (from_be f)) (parseIPv4Fields s 0 0 [])"

definition hex_val :: "char \<Rightarrow> nat option" where
  "hex_val c =
     (let n = (of_char c :: nat) in
      if 48 \<le> n \<and> n \<le> 57 then Some (n - 48)
      else if 97 \<le> n \<and> n \<le> 102 then Some (n - 97 + 10)
      else if 65 \<le> n \<and> n \<le> 70 then Some (n - 65 + 10)
      else None)"

text \<open>One group of hexadecimal digits: the number of digits, their value and the rest of
  the text; \<open>None\<close> at a fifth digit.\<close>

fun scan_hex :: "string \<Rightarrow> nat \<Rightarrow> nat \<Rightarrow> (nat \<times> nat \<times> string) option" where
  "scan_hex [] off acc = Some (off, acc, [])"
| "scan_hex (c # cs) off acc =
     (case hex_val c of
        None \<Rightarrow> Some (off, acc, c # cs)
      | Some d \<Rightarrow>
          if off > 3 then None
          else if acc * 16 + d > 65535 then None
          else scan_hex cs (off + 1) (acc * 16 + d))"

text \<open>The group loop of the IPv6 parser: the bytes so far are \<open>ip\<close>, and \<open>ellipsis\<close> is the
  position of \<^verbatim>\<open>::\<close> among them once it has been seen.\<close>

function parseIPv6_loop ::
  "string \<Rightarrow> byte list \<Rightarrow> nat option \<Rightarrow> (string \<times> byte list \<times> nat option) option" where
  "parseIPv6_loop s ip ellipsis =
     (if \<not> length ip < 16 then Some (s, ip, ellipsis)
      else case scan_hex s 0 0 of
        None \<Rightarrow> None
      | Some (off, acc, rest) \<Rightarrow>
          if off = 0 then None
          else if rest \<noteq> [] \<and> hd rest = CHR ''.'' then
            (if ellipsis = None \<and> length ip \<noteq> 12 then None
             else if length ip + 4 > 16 then None
             else case parseIPv4Fields s 0 0 [] of
                    None \<Rightarrow> None
                  | Some f \<Rightarrow> Some ([], ip @ f, ellipsis))
          else if rest = [] then Some ([], ip @ [of_nat (acc div 256), of_nat acc], ellipsis)
          else if hd rest \<noteq> CHR '':'' then None
          else if length rest = 1 then None
          else if hd (tl rest) = CHR '':'' then
            (if ellipsis \<noteq> None then None
             else if tl (tl rest) = [] then
               Some ([], ip @ [of_nat (acc div 256), of_nat acc], Some (length ip + 2))
             else parseIPv6_loop (tl (tl rest)) (ip @ [of_nat (acc div 256), of_nat acc])
                    (Some (length ip + 2)))
          else parseIPv6_loop (tl rest) (ip @ [of_nat (acc div 256), of_nat acc]) ellipsis)"
  by pat_completeness auto
termination
  by (relation "measure (\<lambda>(s, ip, ellipsis). 16 - length ip)") auto

declare parseIPv6_loop.simps [simp del]

definition parseIPv6 :: "string \<Rightarrow> Addr option" where
  "parseIPv6 inp =
     (let hasZone = (CHR ''%'' \<in> set inp);
          s0 = takeWhile (\<lambda>c. c \<noteq> CHR ''%'') inp;
          zone = (if hasZone then tl (dropWhile (\<lambda>c. c \<noteq> CHR ''%'') inp) else [])
      in if hasZone \<and> zone = [] then None
         else let lead = (length s0 \<ge> 2 \<and> s0 ! 0 = CHR '':'' \<and> s0 ! 1 = CHR '':'');
                  s1 = (if lead then drop 2 s0 else s0)
              in if lead \<and> s1 = [] then Some (WithZone (Addr6 0 []) zone)
                 else case parseIPv6_loop s1 [] (if lead then Some 0 else None) of
                   None \<Rightarrow> None
                 | Some (s, ip, ellipsis) \<Rightarrow>
                     if s \<noteq> [] then None
                     else if length ip < 16 then
                       (case ellipsis of
                          None \<Rightarrow> None
                        | Some e \<Rightarrow>
                            Some (WithZone
                              (Addr6 (from_be (take e ip @ replicate (16 - length ip) 0 @ drop e ip)) [])
                              zone))
                     else if ellipsis \<noteq> None then None
                     else Some (WithZone (Addr6 (from_be ip) []) zone))"

text \<open>\<^verbatim>\<open>netip.ParseAddr\<close>: the first \<^verbatim>\<open>.\<close>, \<^verbatim>\<open>:\<close> or \<^verbatim>\<open>%\<close> decides which parser reads the whole text.\<close>

fun ParseAddr_scan :: "string \<Rightarrow> string \<Rightarrow> Addr option" where
  "ParseAddr_scan [] s = None"
| "ParseAddr_scan (c # cs) s =
     (if c = CHR ''.'' then parseIPv4 s
      else if c = CHR '':'' then parseIPv6 s
      else if c = CHR ''%'' then None
      else ParseAddr_scan cs s)"

definition ParseAddr :: "string \<Rightarrow> Addr option" where
  "ParseAddr s = ParseAddr_scan s s"

definition ParseAddrPort :: "string \<Rightarrow> (Addr \<times> 16 word) option" where
  "ParseAddrPort s =
     (if CHR '':'' \<notin> set s then None
      else let ip = rev (tl (dropWhile (\<lambda>c. c \<noteq> CHR '':'') (rev s)));
               p = rev (takeWhile (\<lambda>c. c \<noteq> CHR '':'') (rev s))
           in if ip = [] then None
              else if p = [] then None
              else if hd ip = CHR ''['' \<and> (length ip < 2 \<or> last ip \<noteq> CHR '']'') then None
              else let v6 = (hd ip = CHR ''['');
                       ip' = (if v6 then butlast (tl ip) else ip)
                   in case ParseUint16 p of
                        None \<Rightarrow> None
                      | Some port16 \<Rightarrow>
                          (case ParseAddr ip' of
                             None \<Rightarrow> None
                           | Some a \<Rightarrow>
                               if v6 \<and> Is4 a then None
                               else if \<not> v6 \<and> Is6 a then None
                               else Some (a, port16)))"

section \<open>Parsing a SOCKS address\<close>

text \<open>A failing call returns \<open>Inl\<close> with the text of the error, a successful one \<open>Inr\<close>.\<close>

definition ParseSocksAddr :: "string \<Rightarrow> string + SocksAddr" where
  "ParseSocksAddr s =
     (case ParseAddrPort s of
        Some addrPort \<Rightarrow>
          if Is4In6 (fst addrPort) then
            Inr \<lparr>addr = Unmap (fst addrPort), fqdn = [], port = snd addrPort\<rparr>
          else Inr \<lparr>addr = fst addrPort, fqdn = [], port = snd addrPort\<rparr>
      | None \<Rightarrow>
          if \<not> ContainsColon s then Inl ''invalid socksaddr''
          else if length (bytes_of (fst (SplitN2 s))) > 255 then Inl ''address too long''
          else (case Atoi (snd (SplitN2 s)) of
                  None \<Rightarrow> Inl ''invalid port''
                | Some p \<Rightarrow>
                    if p < 0 \<or> p > 65535 then Inl ''invalid port''
                    else Inr \<lparr>addr = AddrZero, fqdn = fst (SplitN2 s), port = of_int p\<rparr>))"

section \<open>The transport\<close>

text \<open>
  The dialer and the connections it opens are supplied by the platform. Their behaviour is
  the state \<open>world\<close>: the outcome of dialling the proxy, what the successive \<^verbatim>\<open>Read\<close> calls
  on the proxy connection will observe, the outcome of the successive \<^verbatim>\<open>Write\<close> calls
  (\<open>None\<close> is success; when the list is used up every further write succeeds), the outcome
  of dialling the UDP relay, and the log of the transport operations performed so far.
\<close>

datatype event = Recv "byte list" | RecvErr string

datatype dialed = DialErr string | NotPacketConn | NotUDPConn | UDPConn

datatype io = IoDial string SocksAddr | IoWrite "byte list" | IoRead nat

record world =
  tcp_dial :: "string option"
  inbox :: "event list"
  wres :: "string option list"
  udp_dial :: dialed
  log :: "io list"

text \<open>
  \<^verbatim>\<open>conn.Read(buf)\<close> with a fresh buffer of \<open>k\<close> zero bytes. It returns the error, or the
  buffer after the call and the number \<open>n\<close> of bytes read. A read takes at most \<open>k\<close> bytes
  of the next chunk and leaves the rest for the next call; a read into an empty buffer
  returns at once with \<open>n = 0\<close>; a read on a stream that has ended fails with \<^verbatim>\<open>EOF\<close>.
\<close>

definition Read :: "nat \<Rightarrow> world \<Rightarrow> (string + byte list \<times> nat) \<times> world" where
  "Read k w =
     (let w' = w\<lparr>log := log w @ [IoRead k]\<rparr> in
      if k = 0 then (Inr ([], 0), w')
      else case inbox w of
        [] \<Rightarrow> (Inl ''EOF'', w')
      | RecvErr e # es \<Rightarrow> (Inl e, w'\<lparr>inbox := es\<rparr>)
      | Recv bs # es \<Rightarrow>
          if length bs \<le> k then
            (Inr (bs @ replicate (k - length bs) 0, length bs), w'\<lparr>inbox := es\<rparr>)
          else (Inr (take k bs, k), w'\<lparr>inbox := Recv (drop k bs) # es\<rparr>))"

definition Write :: "byte list \<Rightarrow> world \<Rightarrow> string option \<times> world" where
  "Write b w =
     (let w' = w\<lparr>log := log w @ [IoWrite b]\<rparr> in
      case wres w of
        [] \<Rightarrow> (None, w')
      | r # rs \<Rightarrow> (r, w'\<lparr>wres := rs\<rparr>))"

text \<open>\<^verbatim>\<open>d.dialer.DialContext(ctx, network, target.String())\<close>: the log keeps the network and the
  address whose text is passed.\<close>

definition Dial :: "string \<Rightarrow> SocksAddr \<Rightarrow> world \<Rightarrow> world" where
  "Dial network target w = w\<lparr>log := log w @ [IoDial network target]\<rparr>"

section \<open>The session negotiator: \<^verbatim>\<open>SocksDialer\<close>\<close>

definition Version5 :: byte where "Version5 = 5"
definition MethodNoAuth :: byte where "MethodNoAuth = 0"
definition AuthSuccessed :: byte where "AuthSuccessed = 0"
definition Reversed :: byte where "Reversed = 0"
definition CMDCONNECT :: byte where "CMDCONNECT = 1"
definition CMDASSOCIATE :: byte where "CMDASSOCIATE = 3"

text \<open>\<^verbatim>\<open>%v\<close> of a byte prints its decimal value.\<close>

definition show_byte :: "byte \<Rightarrow> string" where
  "show_byte b = show_nat (unat b)"

definition handleAssociateStatus :: "byte \<Rightarrow> string" where
  "handleAssociateStatus status =
     (if status = 1 then ''associate failed: general socks server failure''
      else if status = 2 then ''connection not allowed by ruleset''
      else if status = 3 then ''network unreachable''
      else if status = 4 then ''host unreachable''
      else if status = 5 then ''connection refused''
      else if status = 6 then ''ttl expired''
      else if status = 7 then ''command not supported''
      else if status = 8 then ''address type not supported''
      else if status = 9 then ''host unreachable''
      else ''unassigned'')"

text \<open>
  The decoder of the bound address, by address type: the \<^verbatim>\<open>switch authRes[3]\<close> of
  \<^verbatim>\<open>DialContext\<close> and the read of the port after it, which fill \<^verbatim>\<open>bindAddr\<close> field by field.
\<close>

definition readBindAddr :: "byte \<Rightarrow> world \<Rightarrow> (string + SocksAddr) \<times> world" where
  "readBindAddr atyp w =
     (let bindAddr = zeroSocksAddr;
          r1 =
           (if atyp = TypeIPv4 then
              (case Read 4 w of
                 (Inl err, w1) \<Rightarrow> (Inl (''parse ipv4 bind address failed: '' @ err), w1)
               | (Inr (a, n), w1) \<Rightarrow>
                   if n < 4 then
                     (Inl ''parse ipv4 bind address failed: bind address too short'', w1)
                   else (case AddrFromSlice a of
                           Some ip \<Rightarrow> (Inr (SetAddr ip bindAddr), w1)
                         | None \<Rightarrow>
                             (Inl ''parse ipv4 bind address failed: invalid ipv4 address'', w1)))
            else if atyp = TypeFqdn then
              (case Read 1 w of
                 (Inl err, w1) \<Rightarrow> (Inl (''parse fqdn bind address length failed: '' @ err), w1)
               | (Inr (addrLen, n), w1) \<Rightarrow>
                   if n = 0 then (Inl ''parse fqdn bind address failed: length is zero'', w1)
                   else (case Read (unat (addrLen ! 0)) w1 of
                           (Inl err, w2) \<Rightarrow> (Inl (''parse fqdn bind address failed: '' @ err), w2)
                         | (Inr (a, n2), w2) \<Rightarrow>
                             if n2 < unat (addrLen ! 0) then
                               (Inl ''parse fqdn bind address failed: bind address too short'', w2)
                             else (Inr (SetFqdn (string_of a) bindAddr), w2)))
            else if atyp = TypeIPv6 then
              (case Read 16 w of
                 (Inl err, w1) \<Rightarrow> (Inl (''parse ipv6 bind address failed: '' @ err), w1)
               | (Inr (a, n), w1) \<Rightarrow>
                   if n < 16 then
                     (Inl ''parse ipv6 bind address failed: bind address too short'', w1)
                   else (case AddrFromSlice a of
                           Some ip \<Rightarrow> (Inr (SetAddr ip bindAddr), w1)
                         | None \<Rightarrow>
                             (Inl ''parse ipv6 bind address failed: invalid ipv6 address'', w1)))
            else (Inl (''unsupported bind address type: '' @ show_byte atyp), w))
      in case r1 of
           (Inl err, w1) \<Rightarrow> (Inl err, w1)
         | (Inr bindAddr1, w1) \<Rightarrow>
             (case Read 2 w1 of
                (Inl err, w2) \<Rightarrow> (Inl (''parse bind port failed: '' @ err), w2)
              | (Inr (rawPort, n), w2) \<Rightarrow>
                  if n < 2 then (Inl ''parse bind port failed: bind port too short'', w2)
                  else (Inr (SetPort (Uint16 rawPort) bindAddr1), w2)))"

text \<open>
  What \<^verbatim>\<open>DialContext\<close> returns on success: the TCP connection to the proxy itself, or the
  packet connection that wraps it, with its fixed destination if it has one.
\<close>

datatype connection = TCPConn | SocksPacketConn "SocksAddr option"

record SocksDialer =
  proxy :: SocksAddr

definition newSocksDialer :: "string \<Rightarrow> string + SocksDialer" where
  "newSocksDialer a =
     (case ParseSocksAddr a of
        Inl err \<Rightarrow> Inl err
      | Inr sAddr \<Rightarrow> Inr \<lparr>proxy = sAddr\<rparr>)"

text \<open>
  The body of \<^verbatim>\<open>DialContext\<close> is cut in three at the places where the Go function has run
  one exchange with the proxy: \<open>DialContext\<close> checks the network, dials the proxy and
  negotiates the method; \<open>dialRequest\<close> sends the command and reads the header of the
  reply and the bound address; \<open>dialRelay\<close> is the end of the function, which returns the
  connection.
\<close>

definition dialRelay ::
  "string \<Rightarrow> SocksAddr \<Rightarrow> SocksAddr \<Rightarrow> world \<Rightarrow> (string + connection) \<times> world" where
  "dialRelay network sAddr bindAddr w =
     (if network = ''tcp'' then (Inr TCPConn, w)
      else let w1 = Dial ''udp'' bindAddr w in
        case udp_dial w1 of
          DialErr err \<Rightarrow> (Inl err, w1)
        | NotPacketConn \<Rightarrow> (Inl ''not a packet conn'', w1)
        | NotUDPConn \<Rightarrow> (Inl ''not a udp conn'', w1)
        | UDPConn \<Rightarrow>
            (Inr (SocksPacketConn
                    (if \<not> IsUnspecified (addr sAddr) \<and> port sAddr \<noteq> 0 then Some sAddr else None)),
             w1))"

definition dialRequest ::
  "byte list \<Rightarrow> string \<Rightarrow> string \<Rightarrow> world \<Rightarrow> (string + connection) \<times> world" where
  "dialRequest negoReq network a w =
     (let reqType = (if network = ''tcp'' then ''connect'' else ''associate'');
          cmd = (if network = ''tcp'' then CMDCONNECT else CMDASSOCIATE) in
      case ParseSocksAddr a of
        Inl err \<Rightarrow> (Inl (''parse socks addr failed: '' @ err), w)
      | Inr sAddr \<Rightarrow>
      let authReq = [Version5, cmd, Reversed] @ Slice sAddr in
      case Write authReq w of
        (Some err, w1) \<Rightarrow> (Inl (''send '' @ reqType @ '' request failed: '' @ err), w1)
      | (None, w1) \<Rightarrow>
      case Read 4 w1 of
        (Inl err, w2) \<Rightarrow> (Inl (''receive '' @ reqType @ '' response failed: '' @ err), w2)
      | (Inr (authRes, n), w2) \<Rightarrow>
      if n < 4 then (Inl (reqType @ '' response too short''), w2)
      else if authRes ! 0 \<noteq> Version5 then
        (Inl (''unsupported '' @ reqType @ '' response version: '' @ show_byte (negoReq ! 0)), w2)
      else if authRes ! 1 \<noteq> AuthSuccessed then
        (Inl (reqType @ '' failed: '' @ handleAssociateStatus (authRes ! 1)), w2)
      else if authRes ! 2 \<noteq> Reversed then
        (Inl (''invalid '' @ reqType @ '' response reserved byte: '' @ show_byte (authRes ! 2)), w2)
      else
      case readBindAddr (authRes ! 3) w2 of
        (Inl err, w3) \<Rightarrow> (Inl err, w3)
      | (Inr bindAddr, w3) \<Rightarrow> dialRelay network sAddr bindAddr w3)"

definition DialContext ::
  "SocksDialer \<Rightarrow> string \<Rightarrow> string \<Rightarrow> world \<Rightarrow> (string + connection) \<times> world" where
  "DialContext d network a w =
     (if network \<noteq> ''tcp'' \<and> network \<noteq> ''udp'' then
        (Inl (''unsupported network type: '' @ network), w)
      else let w0 = Dial ''tcp'' (proxy d) w in
      case tcp_dial w0 of
        Some err \<Rightarrow> (Inl (''dial faile: '' @ err), w0)
      | None \<Rightarrow>
      let negoReq = [Version5, 1, MethodNoAuth] in
      case Write negoReq w0 of
        (Some err, w1) \<Rightarrow> (Inl (''send negotiation request failed: '' @ err), w1)
      | (None, w1) \<Rightarrow>
      case Read 2 w1 of
        (Inl err, w2) \<Rightarrow> (Inl (''receive negotiation response failed: '' @ err), w2)
      | (Inr (negoRes, n), w2) \<Rightarrow>
      if n < 2 then (Inl ''negotiation response too short'', w2)
      else if negoRes ! 0 \<noteq> 5 then
        (Inl (''unsupported negotiation response version: '' @ show_byte (negoReq ! 0)), w2)
      else dialRequest negoReq network a w2)"

text \<open>\<open>log_extends w w'\<close>: the transport operations logged in \<open>w'\<close> are those of \<open>w\<close>,
  followed by some more.\<close>

definition log_extends :: "world \<Rightarrow> world \<Rightarrow> bool" where
  "log_extends w w' = (\<exists>r. log w' = log w @ r)"

section \<open>Basic facts about the encodings\<close>

lemma length_bytes_of [simp]: "length (bytes_of s) = length s"
  by (simp add: bytes_of_def)

lemma length_be_bytes [simp]: "length (be_bytes n w) = n"
  by (simp add: be_bytes_def)

lemma be_bytes_Suc: "be_bytes (Suc n) w = ucast (drop_bit (8 * n) w) # be_bytes n w"
  by (simp add: be_bytes_def)

lemma string_of_bytes_of [simp]: "string_of (bytes_of s) = s"
  by (simp add: string_of_def bytes_of_def byte_of_char_def char_of_byte_def unat_of_nat map_idI)

text \<open>Reading \<open>k\<close> big-endian bytes of a word back gives its \<open>8 * k\<close> low-order bits.\<close>

lemma foldl_be_bytes:
  "foldl (\<lambda>acc b. push_bit 8 acc OR ucast b) (acc :: 'a::len word) (be_bytes k (w :: 'a word))
     = push_bit (8 * k) acc OR take_bit (8 * k) w"
proof (induction k arbitrary: acc)
  case 0
  then show ?case by (simp add: be_bytes_def)
next
  case (Suc k)
  have step: "push_bit (8 * k) (push_bit 8 acc OR ucast (ucast (drop_bit (8 * k) w) :: byte))
                OR take_bit (8 * k) w
              = push_bit (8 * Suc k) acc OR take_bit (8 * Suc k) w"
  proof (rule bit_word_eqI)
    fix m assume "m < LENGTH('a)"
    then show "bit (push_bit (8 * k) (push_bit 8 acc OR ucast (ucast (drop_bit (8 * k) w) :: byte))
                 OR take_bit (8 * k) w) m
             = bit (push_bit (8 * Suc k) acc OR take_bit (8 * Suc k) w) m"
      by (cases "m < 8 * k"; cases "m < 8 * k + 8") (auto simp add: bit_simps add.commute)
  qed
  show ?case
    by (simp only: be_bytes_Suc foldl_Cons Suc.IH step)
qed

lemma from_be_be_bytes4 [simp]: "from_be (be_bytes 4 (w :: 32 word)) = w"
  by (simp add: from_be_def foldl_be_bytes take_bit_word_eq_self)

lemma from_be_be_bytes16 [simp]: "from_be (be_bytes 16 (w :: 128 word)) = w"
  by (simp add: from_be_def foldl_be_bytes take_bit_word_eq_self)

lemma Uint16_AppendUint16: "Uint16 [ucast (drop_bit 8 p), ucast p] = (p :: 16 word)"
proof (rule bit_word_eqI)
  fix m assume "m < LENGTH(16)"
  then show "bit (Uint16 [ucast (drop_bit 8 p), ucast p]) m = bit p m"
    by (cases "m < 8") (auto simp add: Uint16_def bit_simps)
qed

section \<open>Serialization\<close>

text \<open>
  Claim C2, as the code has it. \<open>Slice\<close> produces the tag, the body and the big-endian port
  in that order for a domain name of 1 to 255 bytes (tag 3, one length byte, the name), for
  an IPv4 address without a domain name (tag 1, 4 bytes) and for an IPv6 address without a
  domain name (tag 4, 16 bytes); the two port bytes read back as the port.
\<close>

theorem Slice_format:
  "(fqdn s \<noteq> [] \<and> length (fqdn s) \<le> 255 \<longrightarrow>
      Slice s = [3, of_nat (length (fqdn s))] @ bytes_of (fqdn s)
                  @ [ucast (drop_bit 8 (port s)), ucast (port s)]
      \<and> unat (of_nat (length (fqdn s)) :: byte) = length (bytes_of (fqdn s)))
   \<and> (fqdn s = [] \<and> addr s = Addr4 v4 \<longrightarrow>
      Slice s = [1] @ be_bytes 4 v4 @ [ucast (drop_bit 8 (port s)), ucast (port s)]
      \<and> length (be_bytes 4 v4) = 4)
   \<and> (fqdn s = [] \<and> addr s = Addr6 v6 z \<longrightarrow>
      Slice s = [4] @ be_bytes 16 v6 @ [ucast (drop_bit 8 (port s)), ucast (port s)]
      \<and> length (be_bytes 16 v6) = 16)
   \<and> Uint16 [ucast (drop_bit 8 (port s)), ucast (port s)] = port s"
  by (auto simp add: Slice_def AppendUint16_def TypeFqdn_def TypeIPv4_def TypeIPv6_def
        unat_of_nat Uint16_AppendUint16)

theorem Slice_format_witness:
  "Slice \<lparr>addr = AddrZero, fqdn = ''a.io'', port = 0x1f90\<rparr>
     = [3, 4, 97, 46, 105, 111, 0x1f, 0x90]
   \<and> Slice \<lparr>addr = Addr4 0x7f000001, fqdn = [], port = 53\<rparr> = [1, 127, 0, 0, 1, 0, 53]
   \<and> Slice \<lparr>addr = Addr6 1 [], fqdn = [], port = 53\<rparr>
     = [4, 0, 0, 0, 0, 0, 0, 0, 0, 0, 0, 0, 0, 0, 0, 0, 1, 0, 53]"
  using Slice_format [of "\<lparr>addr = AddrZero, fqdn = ''a.io'', port = 0x1f90\<rparr>"]
    Slice_format [of "\<lparr>addr = Addr4 0x7f000001, fqdn = [], port = 53\<rparr>" "0x7f000001"]
    Slice_format [of "\<lparr>addr = Addr6 1 [], fqdn = [], port = 53\<rparr>" _ 1 "[]"]
  by (simp add: bytes_of_def byte_of_char_def be_bytes_def upt_rec)

text \<open>
  Claim C2, as stated for every \<open>SocksAddr\<close>, fails on two values that the constructor
  \<open>SocksAddrFromFqdnPort\<close> builds: with an empty name and no address the output is the IPv6
  tag followed by no address byte at all, and with a name of 256 bytes the length byte is 0
  although 256 name bytes follow.
\<close>

theorem Slice_format_counterexample:
  "Slice (SocksAddrFromFqdnPort [] 80) = [4, 0, 80]
   \<and> take 2 (Slice (SocksAddrFromFqdnPort (replicate 256 CHR ''a'') 80)) = [3, 0]
   \<and> length (Slice (SocksAddrFromFqdnPort (replicate 256 CHR ''a'') 80)) = 2 + 256 + 2"
  by (simp add: Slice_def SocksAddrFromFqdnPort_def AppendUint16_def TypeFqdn_def TypeIPv6_def)

text \<open>
  Claim C10. For a domain name of more than 255 bytes given to \<open>SocksAddrFromFqdnPort\<close>,
  \<open>Slice\<close> emits the tag, a length byte equal to the length modulo 256, all the bytes of
  the name and the port: the declared length differs from the number of name bytes.
\<close>

theorem Slice_long_fqdn_length_wraps:
  "length f > 255 \<Longrightarrow>
     Slice (SocksAddrFromFqdnPort f p)
       = [TypeFqdn, of_nat (length f)] @ bytes_of f @ [ucast (drop_bit 8 p), ucast p]
     \<and> unat (Slice (SocksAddrFromFqdnPort f p) ! 1) = length f mod 256
     \<and> length (Slice (SocksAddrFromFqdnPort f p)) - 4 = length f
     \<and> unat (Slice (SocksAddrFromFqdnPort f p) ! 1) \<noteq> length f"
  by (auto simp add: Slice_def SocksAddrFromFqdnPort_def AppendUint16_def unat_of_nat)

theorem Slice_long_fqdn_length_wraps_witness:
  "length (replicate 256 CHR ''a'') > 255
   \<and> unat (Slice (SocksAddrFromFqdnPort (replicate 256 CHR ''a'') 80) ! 1) = 0
   \<and> length (Slice (SocksAddrFromFqdnPort (replicate 256 CHR ''a'') 80)) - 4 = 256"
  using Slice_long_fqdn_length_wraps [of "replicate 256 CHR ''a''" 80] by simp

text \<open>
  Claim C9, as the code has it. When both a resolved address and a non-empty domain name
  have been set, in either order, \<open>Slice\<close> serializes the domain name; the resolved
  address is serialized only when the domain name is empty.
\<close>

theorem Slice_prefers_fqdn:
  "f \<noteq> [] \<Longrightarrow>
     Slice (SetAddr a (SetFqdn f s))
       = AppendUint16 ([TypeFqdn, of_nat (length f)] @ bytes_of f) (port s)
     \<and> Slice (SetFqdn f (SetAddr a s))
       = AppendUint16 ([TypeFqdn, of_nat (length f)] @ bytes_of f) (port s)
     \<and> Slice (SetFqdn [] (SetAddr a s))
       = AppendUint16 ((if Is4 (Unmap a) then [TypeIPv4] else [TypeIPv6]) @ AsSlice (Unmap a))
           (port s)"
  by (cases a) (auto simp add: Slice_def SetAddr_def SetFqdn_def)

theorem Slice_prefers_fqdn_witness:
  "Slice (SetAddr (Addr4 0x01020304) (SetFqdn ''a'' zeroSocksAddr)) = [3, 1, 97, 0, 0]
   \<and> Slice (SetFqdn ''a'' (SetAddr (Addr4 0x01020304) zeroSocksAddr)) = [3, 1, 97, 0, 0]
   \<and> Slice (SetFqdn [] (SetAddr (Addr4 0x01020304) zeroSocksAddr)) = [1, 1, 2, 3, 4, 0, 0]"
  using Slice_prefers_fqdn [of "''a''" "Addr4 0x01020304" zeroSocksAddr]
  by (simp add: AppendUint16_def TypeFqdn_def TypeIPv4_def bytes_of_def byte_of_char_def
        zeroSocksAddr_def be_bytes_def upt_rec)

text \<open>
  Claim C9, as stated, fails: after \<open>SetFqdn\<close> with the name \<^verbatim>\<open>a\<close> and then \<open>SetAddr\<close> with
  1.2.3.4, the address was set last, but \<open>Slice\<close> still serializes the name, and not the
  bytes it produces for the address alone.
\<close>

theorem Slice_last_set_counterexample:
  "Slice (SetAddr (Addr4 0x01020304) (SetFqdn ''a'' zeroSocksAddr)) = [3, 1, 97, 0, 0]
   \<and> Slice (SetAddr (Addr4 0x01020304) zeroSocksAddr) = [1, 1, 2, 3, 4, 0, 0]"
  by (simp add: Slice_def SetAddr_def SetFqdn_def AppendUint16_def TypeFqdn_def TypeIPv4_def
        bytes_of_def byte_of_char_def zeroSocksAddr_def be_bytes_def upt_rec)

section \<open>Unmapped storage\<close>

lemma not_Is4In6_Unmap: "\<not> Is4In6 (Unmap a)"
  by (cases a) auto

text \<open>The setter stores every address unmapped.\<close>

lemma SetAddr_unmapped: "\<not> Is4In6 (addr (SetAddr a s))"
  by (cases a) (auto simp add: SetAddr_def)

text \<open>
  Claim C8 at \<^verbatim>\<open>::ffff:1.2.3.4\<close>, port 53. \<open>SocksAddrFromAddrPort\<close> stores the IPv4-mapped
  address as it is, and \<open>Slice\<close> then writes the IPv6 tag and 16 bytes; \<open>SetAddr\<close> on the same
  address stores 1.2.3.4, serialized with the IPv4 tag and 4 bytes.
\<close>

theorem SocksAddrFromAddrPort_keeps_mapped:
  "Is4In6 (addr (SocksAddrFromAddrPort (Addr6 0xffff01020304 [], 53)))
   \<and> Slice (SocksAddrFromAddrPort (Addr6 0xffff01020304 [], 53))
       = [4, 0, 0, 0, 0, 0, 0, 0, 0, 0, 0, 255, 255, 1, 2, 3, 4, 0, 53]
   \<and> addr (SetAddr (Addr6 0xffff01020304 []) zeroSocksAddr) = Addr4 0x01020304
   \<and> Slice (SetPort 53 (SetAddr (Addr6 0xffff01020304 []) zeroSocksAddr))
       = [1, 1, 2, 3, 4, 0, 53]"
  by (simp add: SocksAddrFromAddrPort_def Slice_def SetAddr_def SetPort_def AppendUint16_def
        TypeIPv4_def TypeIPv6_def zeroSocksAddr_def be_bytes_def upt_rec)

section \<open>The handshake\<close>

lemmas io_defs = Read_def Write_def Dial_def Let_def

lemmas const_defs = Version5_def MethodNoAuth_def AuthSuccessed_def Reversed_def
  CMDCONNECT_def CMDASSOCIATE_def TypeIPv4_def TypeFqdn_def TypeIPv6_def

lemma show_byte_5: "show_byte 5 = ''5''"
  by (simp add: show_byte_def show_nat.simps)

lemma ParseSocksAddr_example:
  "ParseSocksAddr ''example.com:80'' = Inr \<lparr>addr = AddrZero, fqdn = ''example.com'', port = 80\<rparr>"
  by (simp add: ParseSocksAddr_def ParseAddrPort_def ParseUint16_def is_digit_def dec_val_def
        ParseAddr_def parseIPv4_def digit_val_def ContainsColon_def SplitN2_def Atoi_def)

text \<open>
  Claim C6. With a network other than \<^verbatim>\<open>tcp\<close> and \<^verbatim>\<open>udp\<close>, \<open>DialContext\<close> returns the
  unsupported-network error and leaves the transport as it found it: nothing is dialled,
  written or read, and the log of transport operations is unchanged.
\<close>

theorem DialContext_unsupported_network:
  "network \<noteq> ''tcp'' \<Longrightarrow> network \<noteq> ''udp'' \<Longrightarrow>
     DialContext d network a w = (Inl (''unsupported network type: '' @ network), w)
     \<and> log (snd (DialContext d network a w)) = log w"
  by (simp add: DialContext_def)

theorem DialContext_unsupported_network_witness:
  "DialContext \<lparr>proxy = zeroSocksAddr\<rparr> ''icmp'' ''example.com:80''
       \<lparr>tcp_dial = None, inbox = [], wres = [], udp_dial = UDPConn, log = []\<rparr>
     = (Inl ''unsupported network type: icmp'',
        \<lparr>tcp_dial = None, inbox = [], wres = [], udp_dial = UDPConn, log = []\<rparr>)"
  using DialContext_unsupported_network [of "''icmp''" "\<lparr>proxy = zeroSocksAddr\<rparr>"
      "''example.com:80''"
      "\<lparr>tcp_dial = None, inbox = [], wres = [], udp_dial = UDPConn, log = []\<rparr>"]
  by simp

text \<open>
  Claim C5 at the replies \<^verbatim>\<open>04 00\<close> (negotiation) and \<^verbatim>\<open>04 00 00 01\<close> (command). The session
  fails, but the message prints the version byte of the request, which is always 5, and
  not the 4 that was received.
\<close>

theorem version_error_reports_5:
  "fst (DialContext \<lparr>proxy = SocksAddrFromFqdnPort ''proxy'' 1080\<rparr> ''tcp'' ''example.com:80''
         \<lparr>tcp_dial = None, inbox = [Recv [4, 0]], wres = [], udp_dial = UDPConn, log = []\<rparr>)
     = Inl ''unsupported negotiation response version: 5''
   \<and> fst (DialContext \<lparr>proxy = SocksAddrFromFqdnPort ''proxy'' 1080\<rparr> ''tcp'' ''example.com:80''
         \<lparr>tcp_dial = None, inbox = [Recv [5, 0], Recv [4, 0, 0, 1]], wres = [],
          udp_dial = UDPConn, log = []\<rparr>)
     = Inl ''unsupported connect response version: 5''"
  by (simp add: DialContext_def dialRequest_def io_defs const_defs show_byte_5
        ParseSocksAddr_example)

text \<open>
  Claim C4 at the command reply \<^verbatim>\<open>05 00 00 03 00 00 50\<close>: address type FQDN, declared length
  0, port 80. The decoder returns an empty bound address and \<open>DialContext\<close> succeeds: the
  test before the message \<^verbatim>\<open>length is zero\<close> looks at the number of bytes read for the
  length byte, which is 1, and not at the length byte.
\<close>

theorem fqdn_zero_length_accepted:
  "fst (readBindAddr TypeFqdn
         \<lparr>tcp_dial = None, inbox = [Recv [0, 0, 80]], wres = [], udp_dial = UDPConn, log = []\<rparr>)
     = Inr \<lparr>addr = AddrZero, fqdn = [], port = 80\<rparr>
   \<and> fst (DialContext \<lparr>proxy = SocksAddrFromFqdnPort ''proxy'' 1080\<rparr> ''tcp'' ''example.com:80''
         \<lparr>tcp_dial = None, inbox = [Recv [5, 0], Recv [5, 0, 0, 3, 0, 0, 80]], wres = [],
          udp_dial = UDPConn, log = []\<rparr>)
     = Inr TCPConn"
  by (simp add: DialContext_def dialRequest_def dialRelay_def readBindAddr_def io_defs const_defs
        ParseSocksAddr_example zeroSocksAddr_def SetFqdn_def SetPort_def string_of_def Uint16_def)




text \<open>With a supported network the first transport operation is the dial of the proxy.\<close>

lemma log_extends_refl [simp]: "log_extends w w"
  by (simp add: log_extends_def)

lemma log_extends_trans: "log_extends w w1 \<Longrightarrow> log_extends w1 w2 \<Longrightarrow> log_extends w w2"
  by (auto simp add: log_extends_def)

lemma Read_extends: "log_extends w (snd (Read k w))"
  by (auto simp add: Read_def Let_def log_extends_def split: list.splits event.splits)

lemma Read_extends': "Read k w = (r, w') \<Longrightarrow> log_extends w w'"
  using Read_extends [of w k] by simp

lemma Write_extends': "Write b w = (r, w') \<Longrightarrow> log_extends w w'"
  by (auto simp add: Write_def Let_def log_extends_def split: list.splits)

lemma Dial_extends: "log_extends w (Dial n t w)"
  by (simp add: Dial_def log_extends_def)

lemma readBindAddr_extends: "readBindAddr t w = (r, w') \<Longrightarrow> log_extends w w'"
  unfolding readBindAddr_def Let_def
  by (auto split: if_splits prod.splits sum.splits option.splits
        dest!: Read_extends' intro: log_extends_trans)

lemma dialRelay_extends: "dialRelay n s b w = (r, w') \<Longrightarrow> log_extends w w'"
  by (auto simp add: dialRelay_def Let_def Dial_extends split: if_splits dialed.splits)

lemma dialRequest_extends: "dialRequest q n a w = (r, w') \<Longrightarrow> log_extends w w'"
  unfolding dialRequest_def Let_def
  by (auto split: if_splits prod.splits sum.splits option.splits
        dest!: Read_extends' Write_extends' readBindAddr_extends dialRelay_extends
        intro: log_extends_trans)

lemma DialContext_dials_first:
  assumes "network = ''tcp'' \<or> network = ''udp''"
  shows "\<exists>rest. log (snd (DialContext d network a w)) = log w @ IoDial ''tcp'' (proxy d) # rest"
proof -
  obtain r w' where res: "DialContext d network a w = (r, w')"
    by (cases "DialContext d network a w")
  have "log_extends (Dial ''tcp'' (proxy d) w) w'"
    using res assms unfolding DialContext_def Let_def
    by (auto split: if_splits prod.splits sum.splits option.splits
        dest!: Read_extends' Write_extends' dialRequest_extends intro: log_extends_trans)
  then show ?thesis
    by (auto simp add: res log_extends_def Dial_def)
qed

section \<open>Parsing\<close>

lemma ParseSocksAddr_ip:
  "ParseAddrPort s = Some (a, p) \<Longrightarrow> ParseSocksAddr s = Inr \<lparr>addr = Unmap a, fqdn = [], port = p\<rparr>"
  by (cases a) (auto simp add: ParseSocksAddr_def)

lemma ParseSocksAddr_name:
  "ParseAddrPort s = None \<Longrightarrow>
   ParseSocksAddr s =
     (if \<not> ContainsColon s then Inl ''invalid socksaddr''
      else if length (fst (SplitN2 s)) > 255 then Inl ''address too long''
      else case Atoi (snd (SplitN2 s)) of
             None \<Rightarrow> Inl ''invalid port''
           | Some q \<Rightarrow> if q < 0 \<or> q > 65535 then Inl ''invalid port''
                       else Inr \<lparr>addr = AddrZero, fqdn = fst (SplitN2 s), port = of_int q\<rparr>)"
  by (simp add: ParseSocksAddr_def)

text \<open>
  Claim C7. \<open>ParseSocksAddr\<close> returns an error exactly when the text is not an
  \<^verbatim>\<open>ip:port\<close> literal (\<open>ParseAddrPort\<close> rejects it) and it has no colon, or the host part
  before its first colon is longer than 255 bytes, or the port part after that colon does
  not parse (\<open>Atoi\<close>) as an integer from 0 to 65535. Otherwise it returns the address of
  the literal (unmapped) with its port, or the host part as domain name with the port.
\<close>

theorem ParseSocksAddr_error_iff:
  "(isl (ParseSocksAddr s) \<longleftrightarrow>
      ParseAddrPort s = None \<and>
      (\<not> ContainsColon s \<or> length (fst (SplitN2 s)) > 255
       \<or> \<not> (\<exists>q. Atoi (snd (SplitN2 s)) = Some q \<and> 0 \<le> q \<and> q \<le> 65535)))
   \<and> (ParseAddrPort s = Some (a, p) \<longrightarrow>
        ParseSocksAddr s = Inr \<lparr>addr = Unmap a, fqdn = [], port = p\<rparr>)
   \<and> (ParseAddrPort s = None \<and> ContainsColon s \<and> length (fst (SplitN2 s)) \<le> 255
        \<and> Atoi (snd (SplitN2 s)) = Some q \<and> 0 \<le> q \<and> q \<le> 65535 \<longrightarrow>
        ParseSocksAddr s = Inr \<lparr>addr = AddrZero, fqdn = fst (SplitN2 s), port = of_int q\<rparr>
        \<and> uint (of_int q :: 16 word) = q)"
proof (cases "ParseAddrPort s")
  case None
  have "uint (of_int q :: 16 word) = q" if "0 \<le> q" "q \<le> 65535"
    using that by (simp add: uint_word_of_int take_bit_int_eq_self)
  then show ?thesis
    using None by (auto simp add: ParseSocksAddr_name split: option.splits)
next
  case (Some ap)
  then show ?thesis
    by (cases ap) (auto simp add: ParseSocksAddr_ip)
qed

theorem ParseSocksAddr_error_iff_witness:
  "isl (ParseSocksAddr ''example.com'')
   \<and> isl (ParseSocksAddr ''example.com:65536'')
   \<and> ParseSocksAddr ''1.2.3.4:80'' = Inr \<lparr>addr = Addr4 0x01020304, fqdn = [], port = 80\<rparr>
   \<and> ParseSocksAddr ''example.com:80'' = Inr \<lparr>addr = AddrZero, fqdn = ''example.com'', port = 80\<rparr>"
proof -
  have ip: "ParseAddrPort ''1.2.3.4:80'' = Some (Addr4 0x01020304, 80)"
    by (simp add: ParseAddrPort_def ParseUint16_def is_digit_def dec_val_def
          ParseAddr_def parseIPv4_def digit_val_def from_be_def)
  have n1: "ParseAddrPort ''example.com'' = None"
    by (simp add: ParseAddrPort_def)
  have n2: "ParseAddrPort ''example.com:65536'' = None"
    by (simp add: ParseAddrPort_def ParseUint16_def is_digit_def dec_val_def digit_val_def)
  have n3: "ParseAddrPort ''example.com:80'' = None"
    by (simp add: ParseAddrPort_def ParseUint16_def is_digit_def dec_val_def digit_val_def
          ParseAddr_def parseIPv4_def)
  show ?thesis
    using ParseSocksAddr_error_iff [of "''example.com''"]
      ParseSocksAddr_error_iff [of "''example.com:65536''"]
      ParseSocksAddr_error_iff [of "''1.2.3.4:80''" "Addr4 0x01020304" 80]
      ParseSocksAddr_error_iff [of "''example.com:80''" _ _ 80]
    by (simp add: ip n1 n2 n3 ContainsColon_def SplitN2_def Atoi_def is_digit_def dec_val_def
          digit_val_def)
qed

section \<open>Round trip\<close>

text \<open>An address that \<open>ParseAddrPort\<close> returns is a valid one.\<close>

lemma parseIPv4_Is4: "parseIPv4 s = Some a \<Longrightarrow> Is4 a"
  by (auto simp add: parseIPv4_def)

lemma parseIPv6_Is6: "parseIPv6 s = Some a \<Longrightarrow> Is6 a"
  by (auto simp add: parseIPv6_def Let_def split: if_splits option.splits prod.splits)

lemma ParseAddr_scan_valid: "ParseAddr_scan cs s = Some a \<Longrightarrow> a \<noteq> AddrZero"
  by (induction cs) (auto split: if_splits dest: parseIPv4_Is4 parseIPv6_Is6)

lemma ParseAddrPort_valid: "ParseAddrPort s = Some (a, p) \<Longrightarrow> a \<noteq> AddrZero"
  by (auto simp add: ParseAddrPort_def ParseAddr_def Let_def split: if_splits option.splits
        dest: ParseAddr_scan_valid)

lemma Unmap_cases:
  "a \<noteq> AddrZero \<Longrightarrow> (\<exists>v. Unmap a = Addr4 v) \<or> (\<exists>v z. Unmap a = Addr6 v z \<and> drop_bit 32 v \<noteq> 0xffff)"
  by (cases a) auto

lemma decode_ipv4:
  "fst (readBindAddr TypeIPv4 (w\<lparr>inbox := [Recv (be_bytes 4 v @ [ucast (drop_bit 8 p), ucast p])]\<rparr>))
     = Inr \<lparr>addr = Addr4 v, fqdn = [], port = p\<rparr>"
  by (simp add: readBindAddr_def Read_def Let_def AddrFromSlice_def SetAddr_def SetPort_def
        zeroSocksAddr_def Uint16_AppendUint16)

lemma decode_ipv6:
  "drop_bit 32 v \<noteq> 0xffff \<Longrightarrow>
   fst (readBindAddr TypeIPv6 (w\<lparr>inbox := [Recv (be_bytes 16 v @ [ucast (drop_bit 8 p), ucast p])]\<rparr>))
     = Inr \<lparr>addr = Addr6 v [], fqdn = [], port = p\<rparr>"
  by (simp add: readBindAddr_def Read_def Let_def AddrFromSlice_def SetAddr_def SetPort_def
        zeroSocksAddr_def Uint16_AppendUint16 const_defs)

lemma decode_fqdn:
  "f \<noteq> [] \<Longrightarrow> length f \<le> 255 \<Longrightarrow>
   fst (readBindAddr TypeFqdn
          (w\<lparr>inbox := [Recv (of_nat (length f) # bytes_of f @ [ucast (drop_bit 8 p), ucast p])]\<rparr>))
     = Inr \<lparr>addr = AddrZero, fqdn = f, port = p\<rparr>"
  by (simp add: readBindAddr_def Read_def Let_def SetFqdn_def SetPort_def
        zeroSocksAddr_def Uint16_AppendUint16 const_defs unat_of_nat)


text \<open>
  Claim C1, as the code has it. For a text that \<open>ParseSocksAddr\<close> accepts and that is an
  \<^verbatim>\<open>ip:port\<close> literal or has a non-empty host part, the decoder by address type, given the
  tag and then the remaining bytes of \<open>Slice\<close>, returns the parsed port and the parsed
  address or name; only the zone of an IPv6 address, which the encoding does not carry,
  is dropped.
\<close>

theorem Parse_Slice_decode_roundtrip:
  assumes "ParseSocksAddr s = Inr sa"
    and "ParseAddrPort s \<noteq> None \<or> fst (SplitN2 s) \<noteq> []"
  shows "fst (readBindAddr (hd (Slice sa)) (w\<lparr>inbox := [Recv (tl (Slice sa))]\<rparr>))
           = Inr (sa\<lparr>addr := WithZone (addr sa) []\<rparr>)"
proof (cases "ParseAddrPort s")
  case (Some ap)
  obtain a p where ap: "ap = (a, p)" by (cases ap)
  have sa: "sa = \<lparr>addr = Unmap a, fqdn = [], port = p\<rparr>"
    using assms(1) Some ap by (simp add: ParseSocksAddr_ip)
  have "a \<noteq> AddrZero"
    using Some ap by (auto dest: ParseAddrPort_valid)
  then consider v where "Unmap a = Addr4 v"
    | v z where "Unmap a = Addr6 v z" "drop_bit 32 v \<noteq> 0xffff"
    using Unmap_cases by blast
  then show ?thesis
  proof cases
    case 1
    then show ?thesis
      using decode_ipv4 [where w = w and v = v and p = p]
      by (simp add: sa Slice_def AppendUint16_def)
  next
    case 2
    then show ?thesis
      using decode_ipv6 [where w = w and v = v and p = p]
      by (simp add: sa Slice_def AppendUint16_def)
  qed
next
  case None
  then have host: "fst (SplitN2 s) \<noteq> []"
    using assms(2) by simp
  have "sa = \<lparr>addr = AddrZero, fqdn = fst (SplitN2 s), port = port sa\<rparr>
        \<and> length (fst (SplitN2 s)) \<le> 255"
    using assms(1) None
    by (auto simp add: ParseSocksAddr_name split: if_splits option.splits)
  then obtain p where sa: "sa = \<lparr>addr = AddrZero, fqdn = fst (SplitN2 s), port = p\<rparr>"
    and len: "length (fst (SplitN2 s)) \<le> 255"
    by blast
  show ?thesis
    using decode_fqdn [OF host len, where w = w and p = p] host
    by (simp add: sa Slice_def AppendUint16_def)
qed

theorem Parse_Slice_decode_roundtrip_witness:
  "fst (readBindAddr 3 \<lparr>tcp_dial = None, inbox = [Recv [4, 97, 46, 105, 111, 0, 80]], wres = [],
                         udp_dial = UDPConn, log = []\<rparr>)
     = Inr \<lparr>addr = AddrZero, fqdn = ''a.io'', port = 80\<rparr>
   \<and> fst (readBindAddr 1 \<lparr>tcp_dial = None, inbox = [Recv [1, 2, 3, 4, 0, 80]], wres = [],
                         udp_dial = UDPConn, log = []\<rparr>)
     = Inr \<lparr>addr = Addr4 0x01020304, fqdn = [], port = 80\<rparr>
   \<and> fst (readBindAddr 4 \<lparr>tcp_dial = None,
                           inbox = [Recv [0, 1, 0, 2, 0, 3, 0, 4, 0, 5, 0, 6, 0, 7, 0, 8, 0, 53]],
                           wres = [], udp_dial = UDPConn, log = []\<rparr>)
     = Inr \<lparr>addr = Addr6 0x00010002000300040005000600070008 [], fqdn = [], port = 53\<rparr>"
proof -
  let ?w = "\<lparr>tcp_dial = None, inbox = [], wres = [], udp_dial = UDPConn, log = []\<rparr>"
  have p1: "ParseSocksAddr ''a.io:80'' = Inr \<lparr>addr = AddrZero, fqdn = ''a.io'', port = 80\<rparr>"
    by (simp add: ParseSocksAddr_def ParseAddrPort_def ParseUint16_def is_digit_def dec_val_def
          ParseAddr_def parseIPv4_def digit_val_def ContainsColon_def SplitN2_def Atoi_def)
  have h1: "ParseAddrPort ''a.io:80'' \<noteq> None \<or> fst (SplitN2 ''a.io:80'') \<noteq> []"
    by (simp add: SplitN2_def)
  have a2: "ParseAddrPort ''1.2.3.4:80'' = Some (Addr4 0x01020304, 80)"
    by (simp add: ParseAddrPort_def ParseUint16_def is_digit_def dec_val_def
          ParseAddr_def parseIPv4_def digit_val_def from_be_def)
  have p2: "ParseSocksAddr ''1.2.3.4:80'' = Inr \<lparr>addr = Addr4 0x01020304, fqdn = [], port = 80\<rparr>"
    by (simp add: ParseSocksAddr_def a2)
  have h2: "ParseAddrPort ''1.2.3.4:80'' \<noteq> None \<or> fst (SplitN2 ''1.2.3.4:80'') \<noteq> []"
    by (simp add: a2)
  have a3: "ParseAddrPort ''[1:2:3:4:5:6:7:8%e]:53'' = Some (Addr6 0x00010002000300040005000600070008 ''e'', 53)"
    by (simp add: ParseAddrPort_def ParseUint16_def is_digit_def dec_val_def digit_val_def
        ParseAddr_def parseIPv6_def parseIPv6_loop.simps hex_val_def from_be_def Let_def)
  have p3: "ParseSocksAddr ''[1:2:3:4:5:6:7:8%e]:53''
              = Inr \<lparr>addr = Addr6 0x00010002000300040005000600070008 ''e'', fqdn = [], port = 53\<rparr>"
    by (simp add: ParseSocksAddr_def a3)
  have h3: "ParseAddrPort ''[1:2:3:4:5:6:7:8%e]:53'' \<noteq> None \<or> fst (SplitN2 ''[1:2:3:4:5:6:7:8%e]:53'') \<noteq> []"
    by (simp add: a3)
  have s1: "Slice \<lparr>addr = AddrZero, fqdn = ''a.io'', port = 80\<rparr> = [3, 4, 97, 46, 105, 111, 0, 80]"
    by (simp add: Slice_def AppendUint16_def const_defs bytes_of_def byte_of_char_def)
  have s2: "Slice \<lparr>addr = Addr4 0x01020304, fqdn = [], port = 80\<rparr> = [1, 1, 2, 3, 4, 0, 80]"
    by (simp add: Slice_def AppendUint16_def const_defs be_bytes_def upt_rec)
  have s3: "Slice \<lparr>addr = Addr6 0x00010002000300040005000600070008 ''e'', fqdn = [], port = 53\<rparr>
              = [4, 0, 1, 0, 2, 0, 3, 0, 4, 0, 5, 0, 6, 0, 7, 0, 8, 0, 53]"
    by (simp add: Slice_def AppendUint16_def const_defs be_bytes_def upt_rec)
  show ?thesis
    using Parse_Slice_decode_roundtrip [OF p1 h1, of ?w]
      Parse_Slice_decode_roundtrip [OF p2 h2, of ?w]
      Parse_Slice_decode_roundtrip [OF p3 h3, of ?w]
    by (simp add: s1 s2 s3)
qed

text \<open>
  Claim C1, as stated, fails at the text \<^verbatim>\<open>:80\<close>, which \<open>ParseSocksAddr\<close> accepts with an empty
  host: \<open>Slice\<close> encodes the result as the IPv6 tag and the port with no address bytes, and
  the decoder for that tag fails on a short read.
\<close>

theorem roundtrip_empty_host_counterexample:
  "ParseSocksAddr '':80'' = Inr \<lparr>addr = AddrZero, fqdn = [], port = 80\<rparr>
   \<and> Slice \<lparr>addr = AddrZero, fqdn = [], port = 80\<rparr> = [4, 0, 80]
   \<and> fst (readBindAddr 4 \<lparr>tcp_dial = None, inbox = [Recv [0, 80]], wres = [],
                           udp_dial = UDPConn, log = []\<rparr>)
       = Inl ''parse ipv6 bind address failed: bind address too short''"
  by (simp add: ParseSocksAddr_def ParseAddrPort_def ContainsColon_def SplitN2_def Atoi_def
        is_digit_def dec_val_def digit_val_def Slice_def AppendUint16_def
        readBindAddr_def Read_def const_defs)

end
